theory Spec2Isabelle
  imports Main "HOL-Library.Word"
begin

unbundle bit_operations_syntax

section \<open>The auto-unseal manager of \<^verbatim>\<open>vault/seal_autoseal.go\<close>\<close>

text \<open>
  The development embeds the type \<^verbatim>\<open>autoSeal\<close> and its methods. State is passed
  explicitly: a method takes the manager and returns the manager it leaves behind. A Go
  panic (a nil pointer dereference, an index out of range) is the left summand of the
  result. Logging and metric gauges are left out: they are write-only for this file, the
  logger is set by \<^verbatim>\<open>SetCore\<close> together with the core, and every logging call of the
  source comes after a dereference of the core. Contexts and their timeouts show only as the
  error a collaborator returns.
\<close>

subsection \<open>Go values\<close>

type_synonym byte = "8 word"

text \<open>A Go \<^verbatim>\<open>[]byte\<close>: \<open>None\<close> is the nil slice, \<open>Some []\<close> an empty slice that is not nil.\<close>

type_synonym slice = "byte list option"

definition bytes_of :: "slice \<Rightarrow> byte list" where
  "bytes_of s = (case s of None \<Rightarrow> [] | Some bs \<Rightarrow> bs)"

text \<open>
  Errors: \<^verbatim>\<open>fmt.Errorf(msg)\<close>, \<^verbatim>\<open>fmt.Errorf(msg + ": %w", err)\<close> and the two messages
  formatted with two \<^verbatim>\<open>%q\<close> arguments. An error a collaborator returns is a value of the
  same type.
\<close>

datatype error =
    Errorf string
  | Wrapf string error
  | Errorf_qq string string string

datatype panic = NilPointerDereference | IndexOutOfRange

type_synonym Time = nat
type_synonym Duration = int

definition Minute :: Duration where
  "Minute = 60000000000"

definition sealHealthTestIntervalNominal :: Duration where
  "sealHealthTestIntervalNominal = 10 * Minute"

definition sealHealthTestIntervalUnhealthy :: Duration where
  "sealHealthTestIntervalUnhealthy = 1 * Minute"

subsection \<open>Seal configuration\<close>

type_synonym SealConfigType = string

text \<open>
  Modelled from the spec: the constants \<^verbatim>\<open>SealConfigTypeMultiseal\<close> and
  \<^verbatim>\<open>SealConfigTypeRecovery\<close> are declared outside the source file; the spec names the
  kinds "multiseal" and "recovery".
\<close>

definition SealConfigTypeMultiseal :: SealConfigType where
  "SealConfigTypeMultiseal = ''multiseal''"

definition SealConfigTypeRecovery :: SealConfigType where
  "SealConfigTypeRecovery = ''recovery''"

text \<open>Modelled from the spec: \<^verbatim>\<open>SealConfigType.String\<close>, the conversion of the string type.\<close>

definition String :: "SealConfigType \<Rightarrow> string" where
  "String s = s"

text \<open>
  Modelled from the spec: \<^verbatim>\<open>SealConfig\<close> is a persisted record of a type and
  threshold and shares metadata. \<^verbatim>\<open>Clone\<close> is a deep copy; on values it is the identity.
\<close>

record SealConfig =
  Type :: string
  SecretShares :: int
  SecretThreshold :: int
  StoredShares :: int

definition Clone :: "SealConfig \<Rightarrow> SealConfig" where
  "Clone c = c"

subsection \<open>Storage\<close>

record Entry =
  Key :: string
  Value :: slice

text \<open>
  Modelled from the spec: the storage engine is a key-value store with get, put and delete
  by path, each of which may fail. The failure of an operation on a path is part of the
  store, so that every error branch of the manager can be taken. A failed put or delete
  leaves the entries as they were.
\<close>

record Storage =
  entries :: "string \<rightharpoonup> slice"
  get_failure :: "string \<Rightarrow> error option"
  put_failure :: "string \<Rightarrow> error option"
  delete_failure :: "string \<Rightarrow> error option"

definition storage_Get :: "Storage \<Rightarrow> string \<Rightarrow> error + Entry option" where
  "storage_Get s path =
     (case get_failure s path of
        Some e \<Rightarrow> Inl e
      | None \<Rightarrow>
          (case entries s path of
             None \<Rightarrow> Inr None
           | Some v \<Rightarrow> Inr (Some \<lparr>Key = path, Value = v\<rparr>)))"

definition storage_Put :: "Storage \<Rightarrow> Entry \<Rightarrow> error option \<times> Storage" where
  "storage_Put s e =
     (case put_failure s (Key e) of
        Some err \<Rightarrow> (Some err, s)
      | None \<Rightarrow> (None, s\<lparr>entries := (entries s)(Key e \<mapsto> Value e)\<rparr>))"

definition storage_Delete :: "Storage \<Rightarrow> string \<Rightarrow> error option \<times> Storage" where
  "storage_Delete s path =
     (case delete_failure s path of
        Some err \<Rightarrow> (Some err, s)
      | None \<Rightarrow> (None, s\<lparr>entries := (entries s)(path := None)\<rparr>))"

text \<open>
  Modelled from the spec: the fixed storage paths are constants declared outside the source
  file; the spec treats them as opaque strings.
\<close>

definition StoredBarrierKeysPath :: string where
  "StoredBarrierKeysPath = ''core/hsm/barrier-unseal-keys''"

definition recoveryKeyPath :: string where
  "recoveryKeyPath = ''core/recovery-key''"

definition recoverySealConfigPath :: string where
  "recoverySealConfigPath = ''core/recovery-seal-config''"

definition recoverySealConfigPlaintextPath :: string where
  "recoverySealConfigPlaintextPath = ''core/recovery-config''"

subsection \<open>Seal backends\<close>

text \<open>One configured seal of the generation info; only its declared type is read.\<close>

record KMS =
  kms_Type :: string
  kms_Name :: string

text \<open>
  The per-backend record the health check walks (\<^verbatim>\<open>w\<close> in the source). \<^verbatim>\<open>Encrypt\<close> and
  \<^verbatim>\<open>Decrypt\<close> return a Go pair of a value and an error.
\<close>

record SealWrapper =
  w_Name :: string
  w_Priority :: int
  w_Healthy :: bool
  w_LastSeenHealthy :: Time
  w_LastHealthCheck :: Time
  w_Encrypt :: "byte list \<Rightarrow> slice \<times> error option"
  w_Decrypt :: "slice \<Rightarrow> slice \<times> error option"

text \<open>
  Modelled from the spec: a wrapped value is a tagged container of a ciphertext and the
  identifier of the key version that produced it.
\<close>

record SealWrappedValue =
  sw_key_version :: string
  sw_ciphertext :: "byte list"

text \<open>
  The part of \<^verbatim>\<open>seal.Access\<close> the manager calls: the configured seals, the backends in
  priority order and the up-to-date check.
\<close>

record seal_Access =
  Seals :: "KMS list"
  AllSealInfoByPriority :: "SealWrapper list"
  IsUpToDate :: "SealWrappedValue \<Rightarrow> bool \<Rightarrow> error + bool"

subsection \<open>The server core\<close>

record Core =
  physical :: Storage
  barrier :: Storage
  sealed :: bool

text \<open>
  The functions of the repository that the source file calls and that are declared in other
  files. They are parameters of the model: a value of this record is one implementation of
  them.
\<close>

record helpers =
  writeStoredKeys :: "Storage \<Rightarrow> seal_Access \<Rightarrow> slice list \<Rightarrow> error option \<times> Storage"
  readStoredKeys :: "Storage \<Rightarrow> seal_Access \<Rightarrow> error + slice list"
  UnmarshalSealWrappedValue :: "slice \<Rightarrow> error + SealWrappedValue"
  UnsealWrapStoredBarrierKeys :: "seal_Access \<Rightarrow> Entry \<Rightarrow> error + slice list"
  wrapValue :: "seal_Access \<Rightarrow> slice \<Rightarrow> error + slice"
  unwrapValue :: "seal_Access \<Rightarrow> slice \<Rightarrow> error + slice"
  IsSameAs :: "SealConfigType \<Rightarrow> string \<Rightarrow> bool"
  PhysicalBarrierSealConfig :: "Core \<Rightarrow> error + SealConfig option"
  SetPhysicalBarrierSealConfig :: "Core \<Rightarrow> SealConfig \<Rightarrow> error option \<times> Core"
  PhysicalRecoverySealConfig :: "Core \<Rightarrow> error + SealConfig option"
  PhysicalRecoverySealConfigOldPath :: "Core \<Rightarrow> error + SealConfig option"
  SetPhysicalRecoverySealConfig :: "Core \<Rightarrow> SealConfig \<Rightarrow> error option \<times> Core"

text \<open>
  Modelled from the spec: \<^verbatim>\<open>SealWrapRecoveryKey\<close> and \<^verbatim>\<open>UnsealWrapRecoveryKey\<close> are
  declared outside the source file. By the spec the recovery key is wrapped by the codec
  and persisted at the fixed recovery-key path; the codec itself is a parameter.
\<close>

definition SealWrapRecoveryKey :: "helpers \<Rightarrow> seal_Access \<Rightarrow> slice \<Rightarrow> error + Entry" where
  "SealWrapRecoveryKey h access key =
     (case wrapValue h access key of
        Inl e \<Rightarrow> Inl e
      | Inr v \<Rightarrow> Inr \<lparr>Key = recoveryKeyPath, Value = v\<rparr>)"

definition UnsealWrapRecoveryKey :: "helpers \<Rightarrow> seal_Access \<Rightarrow> Entry \<Rightarrow> error + slice" where
  "UnsealWrapRecoveryKey h access pe = unwrapValue h access (Value pe)"

subsection \<open>The manager\<close>

record autoSeal =
  Access :: seal_Access
  barrierSealConfigType :: SealConfigType
  barrierConfig :: "SealConfig option"
  recoveryConfig :: "SealConfig option"
  core :: "Core option"
  allSealsHealthy :: bool
  healthCheckStop :: "unit option"

definition NewAutoSeal :: "seal_Access \<Rightarrow> panic + autoSeal" where
  "NewAutoSeal lowLevel =
     (if length (Seals lowLevel) > 1 then
        Inr \<lparr>Access = lowLevel, barrierSealConfigType = SealConfigTypeMultiseal,
             barrierConfig = None, recoveryConfig = None, core = None,
             allSealsHealthy = False, healthCheckStop = None\<rparr>
      else
        (case Seals lowLevel of
           [] \<Rightarrow> Inl IndexOutOfRange
         | k # _ \<Rightarrow>
             Inr \<lparr>Access = lowLevel, barrierSealConfigType = kms_Type k,
                  barrierConfig = None, recoveryConfig = None, core = None,
                  allSealsHealthy = False, healthCheckStop = None\<rparr>))"

definition Healthy :: "autoSeal \<Rightarrow> bool" where
  "Healthy d = allSealsHealthy d"

definition GetAccess :: "autoSeal \<Rightarrow> seal_Access" where
  "GetAccess d = Access d"

definition checkCore :: "autoSeal \<Rightarrow> error option" where
  "checkCore d =
     (if core d = None then Some (Errorf ''seal does not have a core set'') else None)"

text \<open>\<^verbatim>\<open>SetCore\<close>, for a core that is not nil; it also sets the logger, which is not modelled.\<close>

definition SetCore :: "autoSeal \<Rightarrow> Core \<Rightarrow> autoSeal" where
  "SetCore d c = d\<lparr>core := Some c\<rparr>"

definition BarrierSealConfigType :: "autoSeal \<Rightarrow> SealConfigType" where
  "BarrierSealConfigType d = barrierSealConfigType d"

definition RecoverySealConfigType :: "autoSeal \<Rightarrow> SealConfigType" where
  "RecoverySealConfigType d = SealConfigTypeRecovery"

subsection \<open>Stored keys\<close>

definition SetStoredKeys :: "helpers \<Rightarrow> autoSeal \<Rightarrow> slice list \<Rightarrow> panic + (error option \<times> autoSeal)" where
  "SetStoredKeys h d keys =
     (case core d of
        None \<Rightarrow> Inl NilPointerDereference
      | Some c \<Rightarrow>
          (case writeStoredKeys h (physical c) (Access d) keys of
             (err, p) \<Rightarrow> Inr (err, d\<lparr>core := Some (c\<lparr>physical := p\<rparr>)\<rparr>)))"

definition GetStoredKeys :: "helpers \<Rightarrow> autoSeal \<Rightarrow> panic + (error + slice list)" where
  "GetStoredKeys h d =
     (case core d of
        None \<Rightarrow> Inl NilPointerDereference
      | Some c \<Rightarrow> Inr (readStoredKeys h (physical c) (Access d)))"

text \<open>
  \<^verbatim>\<open>wrappedEntryValue.getValue()\<close> projects the container to the value the backend
  checks; the model passes the container itself.
\<close>

definition upgradeStoredKeys :: "helpers \<Rightarrow> autoSeal \<Rightarrow> panic + (error option \<times> autoSeal)" where
  "upgradeStoredKeys h d =
     (case core d of
        None \<Rightarrow> Inl NilPointerDereference
      | Some c \<Rightarrow>
          (case storage_Get (physical c) StoredBarrierKeysPath of
             Inl err \<Rightarrow> Inr (Some (Wrapf ''failed to fetch stored keys'' err), d)
           | Inr None \<Rightarrow> Inr (Some (Errorf ''no stored keys found''), d)
           | Inr (Some pe) \<Rightarrow>
               (case UnmarshalSealWrappedValue h (Value pe) of
                  Inl err \<Rightarrow> Inr (Some (Wrapf ''failed to unmarshal stored keys'' err), d)
                | Inr wrappedEntryValue \<Rightarrow>
                    (case IsUpToDate (Access d) wrappedEntryValue True of
                       Inl err \<Rightarrow>
                         Inr (Some (Wrapf ''failed to check if stored keys are up-to-date'' err), d)
                     | Inr uptodate \<Rightarrow>
                         if \<not> uptodate then
                           (case UnsealWrapStoredBarrierKeys h (GetAccess d) pe of
                              Inl err \<Rightarrow>
                                Inr (Some (Wrapf ''failed to decrypt encrypted stored keys'' err), d)
                            | Inr keys \<Rightarrow>
                                (case SetStoredKeys h d keys of
                                   Inl p \<Rightarrow> Inl p
                                 | Inr (Some err, d') \<Rightarrow>
                                     Inr (Some (Wrapf ''failed to save upgraded stored keys'' err), d')
                                 | Inr (None, d') \<Rightarrow> Inr (None, d')))
                         else Inr (None, d)))))"

subsection \<open>The recovery key\<close>

text \<open>
  \<^verbatim>\<open>subtle.ConstantTimeCompare\<close> and \<^verbatim>\<open>subtle.ConstantTimeByteEq\<close> of the Go standard
  library, on 8-bit and 32-bit words: the loop accumulates the bitwise or of the pairwise
  exclusive ors.
\<close>

fun ctc_loop :: "byte \<Rightarrow> byte list \<Rightarrow> byte list \<Rightarrow> byte" where
  "ctc_loop v (a # x) (b # y) = ctc_loop (v OR (a XOR b)) x y"
| "ctc_loop v _ _ = v"

definition ConstantTimeByteEq :: "byte \<Rightarrow> byte \<Rightarrow> int" where
  "ConstantTimeByteEq x y = uint (drop_bit 31 ((ucast (x XOR y) :: 32 word) - 1))"

definition ConstantTimeCompare :: "byte list \<Rightarrow> byte list \<Rightarrow> int" where
  "ConstantTimeCompare x y =
     (if length x \<noteq> length y then 0 else ConstantTimeByteEq (ctc_loop 0 x y) 0)"

definition getRecoveryKeyInternal :: "helpers \<Rightarrow> autoSeal \<Rightarrow> panic + (error + slice)" where
  "getRecoveryKeyInternal h d =
     (case core d of
        None \<Rightarrow> Inl NilPointerDereference
      | Some c \<Rightarrow>
          (case storage_Get (physical c) recoveryKeyPath of
             Inl err \<Rightarrow> Inr (Inl (Wrapf ''failed to read recovery key'' err))
           | Inr None \<Rightarrow> Inr (Inl (Errorf ''no recovery key found''))
           | Inr (Some pe) \<Rightarrow>
               (case UnsealWrapRecoveryKey h (Access d) pe of
                  Inl err \<Rightarrow> Inr (Inl (Wrapf ''failed to decrypt encrypted stored keys'' err))
                | Inr pt \<Rightarrow> Inr (Inr pt))))"

definition RecoveryKey :: "helpers \<Rightarrow> autoSeal \<Rightarrow> panic + (error + slice)" where
  "RecoveryKey h d = getRecoveryKeyInternal h d"

definition VerifyRecoveryKey :: "helpers \<Rightarrow> autoSeal \<Rightarrow> slice \<Rightarrow> panic + error option" where
  "VerifyRecoveryKey h d key =
     (if key = None then Inr (Some (Errorf ''recovery key to verify is nil''))
      else
        (case getRecoveryKeyInternal h d of
           Inl p \<Rightarrow> Inl p
         | Inr (Inl err) \<Rightarrow> Inr (Some err)
         | Inr (Inr pt) \<Rightarrow>
             if ConstantTimeCompare (bytes_of key) (bytes_of pt) \<noteq> 1
             then Inr (Some (Errorf ''recovery key does not match submitted values''))
             else Inr None))"

definition SetRecoveryKey :: "helpers \<Rightarrow> autoSeal \<Rightarrow> slice \<Rightarrow> panic + (error option \<times> autoSeal)" where
  "SetRecoveryKey h d key =
     (case checkCore d of
        Some err \<Rightarrow> Inr (Some err, d)
      | None \<Rightarrow>
          if key = None then Inr (Some (Errorf ''recovery key to store is nil''), d)
          else
            (case SealWrapRecoveryKey h (Access d) key of
               Inl err \<Rightarrow> Inr (Some (Wrapf ''failed to encrypt keys for storage'' err), d)
             | Inr be \<Rightarrow>
                 (case core d of
                    None \<Rightarrow> Inl NilPointerDereference
                  | Some c \<Rightarrow>
                      (case storage_Put (physical c) be of
                         (Some err, p) \<Rightarrow>
                           Inr (Some (Wrapf ''failed to write recovery key'' err),
                                d\<lparr>core := Some (c\<lparr>physical := p\<rparr>)\<rparr>)
                       | (None, p) \<Rightarrow> Inr (None, d\<lparr>core := Some (c\<lparr>physical := p\<rparr>)\<rparr>)))))"

definition upgradeRecoveryKey :: "helpers \<Rightarrow> autoSeal \<Rightarrow> panic + (error option \<times> autoSeal)" where
  "upgradeRecoveryKey h d =
     (case core d of
        None \<Rightarrow> Inl NilPointerDereference
      | Some c \<Rightarrow>
          (case storage_Get (physical c) recoveryKeyPath of
             Inl err \<Rightarrow> Inr (Some (Wrapf ''failed to fetch recovery key'' err), d)
           | Inr None \<Rightarrow> Inr (Some (Errorf ''no recovery key found''), d)
           | Inr (Some pe) \<Rightarrow>
               (case UnmarshalSealWrappedValue h (Value pe) of
                  Inl err \<Rightarrow> Inr (Some (Wrapf ''failed to unmarshal recovery key'' err), d)
                | Inr wrappedEntryValue \<Rightarrow>
                    (case IsUpToDate (Access d) wrappedEntryValue True of
                       Inl err \<Rightarrow>
                         Inr (Some (Wrapf ''failed to check if recovery key is up-to-date'' err), d)
                     | Inr uptodate \<Rightarrow>
                         if \<not> uptodate then
                           (case UnsealWrapRecoveryKey h (Access d) pe of
                              Inl err \<Rightarrow> Inr (Some (Wrapf ''failed to decrypt recovery key'' err), d)
                            | Inr pt \<Rightarrow>
                                (case SetRecoveryKey h d pt of
                                   Inl p \<Rightarrow> Inl p
                                 | Inr (Some err, d') \<Rightarrow>
                                     Inr (Some (Wrapf ''failed to save upgraded recovery key'' err), d')
                                 | Inr (None, d') \<Rightarrow> Inr (None, d')))
                         else Inr (None, d)))))"

text \<open>The recovery key is upgraded first; the stored keys only when that returned no error.\<close>

definition UpgradeKeys :: "helpers \<Rightarrow> autoSeal \<Rightarrow> panic + (error option \<times> autoSeal)" where
  "UpgradeKeys h d =
     (case upgradeRecoveryKey h d of
        Inl p \<Rightarrow> Inl p
      | Inr (Some err, d') \<Rightarrow> Inr (Some err, d')
      | Inr (None, d') \<Rightarrow>
          (case upgradeStoredKeys h d' of
             Inl p \<Rightarrow> Inl p
           | Inr (Some err, d'') \<Rightarrow> Inr (Some err, d'')
           | Inr (None, d'') \<Rightarrow> Inr (None, d'')))"

subsection \<open>Barrier configuration\<close>

definition SetCachedBarrierConfig :: "autoSeal \<Rightarrow> SealConfig option \<Rightarrow> autoSeal" where
  "SetCachedBarrierConfig d config = d\<lparr>barrierConfig := config\<rparr>"

text \<open>
  \<^verbatim>\<open>barrierTypeUpgradeCheck\<close> is the empty function in this source, so the call between
  the read and the type comparison has no counterpart here.
\<close>

definition BarrierConfig ::
  "helpers \<Rightarrow> autoSeal \<Rightarrow> panic + ((error + SealConfig option) \<times> autoSeal)" where
  "BarrierConfig h d =
     (case barrierConfig d of
        Some cfg \<Rightarrow> Inr (Inr (Some (Clone cfg)), d)
      | None \<Rightarrow>
          (case checkCore d of
             Some err \<Rightarrow> Inr (Inl err, d)
           | None \<Rightarrow>
               (case core d of
                  None \<Rightarrow> Inl NilPointerDereference
                | Some c \<Rightarrow>
                    (case PhysicalBarrierSealConfig h c of
                       Inl err \<Rightarrow> Inr (Inl (Wrapf ''failed to read seal configuration'' err), d)
                     | Inr None \<Rightarrow> Inr (Inr None, d)
                     | Inr (Some conf) \<Rightarrow>
                         if Type conf \<noteq> String (BarrierSealConfigType d) then
                           Inr (Inl (Errorf_qq
                                  ''barrier seal type of %q does not match loaded type of %q''
                                  (Type conf) (BarrierSealConfigType d)), d)
                         else Inr (Inr (Some (Clone conf)), SetCachedBarrierConfig d (Some conf))))))"

text \<open>
  The configuration is passed by pointer and stamped in place. The second component of the
  result is the caller's object as the call leaves it.
\<close>

definition SetBarrierConfig ::
  "helpers \<Rightarrow> autoSeal \<Rightarrow> SealConfig option \<Rightarrow>
     panic + (error option \<times> SealConfig option \<times> autoSeal)" where
  "SetBarrierConfig h d conf =
     (case checkCore d of
        Some err \<Rightarrow> Inr (Some err, conf, d)
      | None \<Rightarrow>
          (case conf of
             None \<Rightarrow> Inr (None, None, d\<lparr>barrierConfig := None\<rparr>)
           | Some cf \<Rightarrow>
               (let cf' = cf\<lparr>Type := String (BarrierSealConfigType d)\<rparr> in
                case core d of
                  None \<Rightarrow> Inl NilPointerDereference
                | Some c \<Rightarrow>
                    (case SetPhysicalBarrierSealConfig h c cf' of
                       (Some err, c') \<Rightarrow> Inr (Some err, Some cf', d\<lparr>core := Some c'\<rparr>)
                     | (None, c') \<Rightarrow>
                         Inr (None, Some cf',
                              SetCachedBarrierConfig (d\<lparr>core := Some c'\<rparr>) (Some (Clone cf')))))))"

definition ClearBarrierConfig ::
  "helpers \<Rightarrow> autoSeal \<Rightarrow> panic + (error option \<times> SealConfig option \<times> autoSeal)" where
  "ClearBarrierConfig h d = SetBarrierConfig h d None"

subsection \<open>Recovery configuration\<close>

text \<open>
  The comparison of the loaded type, after the legacy fallback. It reads the variable
  \<^verbatim>\<open>conf\<close> of the function's outer scope, a pointer.
\<close>

definition recovery_type_check ::
  "helpers \<Rightarrow> autoSeal \<Rightarrow> SealConfig option \<Rightarrow> panic + ((error + SealConfig option) \<times> autoSeal)" where
  "recovery_type_check h d conf =
     (case conf of
        None \<Rightarrow> Inl NilPointerDereference
      | Some cf \<Rightarrow>
          if \<not> IsSameAs h (RecoverySealConfigType d) (Type cf) then
            Inr (Inl (Errorf_qq
                   ''recovery seal type of %q does not match loaded type of %q''
                   (Type cf) (RecoverySealConfigType d)), d)
          else Inr (Inr (Some (Clone cf)), d\<lparr>recoveryConfig := Some cf\<rparr>))"

text \<open>
  Inside the block for a missing primary entry the source declares new variables with
  \<^verbatim>\<open>conf, err := d.core.PhysicalRecoverySealConfigOldPath(ctx)\<close>. They live in the block:
  \<open>conf_old\<close> below. The type comparison after the block reads the outer \<open>conf\<close>.
\<close>

definition RecoveryConfig ::
  "helpers \<Rightarrow> autoSeal \<Rightarrow> panic + ((error + SealConfig option) \<times> autoSeal)" where
  "RecoveryConfig h d =
     (case recoveryConfig d of
        Some cfg \<Rightarrow> Inr (Inr (Some (Clone cfg)), d)
      | None \<Rightarrow>
          (case checkCore d of
             Some err \<Rightarrow> Inr (Inl err, d)
           | None \<Rightarrow>
               (case core d of
                  None \<Rightarrow> Inl NilPointerDereference
                | Some c \<Rightarrow>
                    (case PhysicalRecoverySealConfig h c of
                       Inl err \<Rightarrow>
                         Inr (Inl (Wrapf ''failed to read recovery seal configuration'' err), d)
                     | Inr conf \<Rightarrow>
                         if conf = None then
                           if sealed c then Inr (Inr None, d)
                           else
                             (case PhysicalRecoverySealConfigOldPath h c of
                                Inl err \<Rightarrow>
                                  Inr (Inl (Wrapf ''failed to read old recovery seal configuration'' err), d)
                              | Inr conf_old \<Rightarrow>
                                  if conf_old = None then Inr (Inr None, d)
                                  else recovery_type_check h d conf)
                         else recovery_type_check h d conf))))"

definition migrateRecoveryConfig :: "autoSeal \<Rightarrow> panic + (error option \<times> autoSeal)" where
  "migrateRecoveryConfig d =
     (case core d of
        None \<Rightarrow> Inl NilPointerDereference
      | Some c \<Rightarrow>
          (case storage_Get (barrier c) recoverySealConfigPath of
             Inl err \<Rightarrow>
               Inr (Some (Wrapf ''failed to read old recovery seal configuration during migration'' err), d)
           | Inr None \<Rightarrow> Inr (None, d)
           | Inr (Some be) \<Rightarrow>
               (let pe = \<lparr>Key = recoverySealConfigPlaintextPath, Value = Value be\<rparr> in
                case storage_Put (physical c) pe of
                  (Some err, p) \<Rightarrow>
                    Inr (Some (Wrapf ''failed to write recovery seal configuration during migration'' err),
                         d\<lparr>core := Some (c\<lparr>physical := p\<rparr>)\<rparr>)
                | (None, p) \<Rightarrow>
                    (case storage_Delete (barrier c) recoverySealConfigPath of
                       (Some err, b) \<Rightarrow>
                         Inr (Some (Wrapf ''failed to delete old recovery seal configuration during migration'' err),
                              d\<lparr>core := Some (c\<lparr>physical := p, barrier := b\<rparr>)\<rparr>)
                     | (None, b) \<Rightarrow>
                         Inr (None, d\<lparr>core := Some (c\<lparr>physical := p, barrier := b\<rparr>)\<rparr>)))))"

definition SetRecoveryConfig ::
  "helpers \<Rightarrow> autoSeal \<Rightarrow> SealConfig option \<Rightarrow>
     panic + (error option \<times> SealConfig option \<times> autoSeal)" where
  "SetRecoveryConfig h d conf =
     (case checkCore d of
        Some err \<Rightarrow> Inr (Some err, conf, d)
      | None \<Rightarrow>
          (case migrateRecoveryConfig d of
             Inl p \<Rightarrow> Inl p
           | Inr (Some err, d1) \<Rightarrow> Inr (Some err, conf, d1)
           | Inr (None, d1) \<Rightarrow>
               (case conf of
                  None \<Rightarrow> Inr (None, None, d1\<lparr>recoveryConfig := None\<rparr>)
                | Some cf \<Rightarrow>
                    (let cf' = cf\<lparr>Type := String (RecoverySealConfigType d1)\<rparr> in
                     case core d1 of
                       None \<Rightarrow> Inl NilPointerDereference
                     | Some c \<Rightarrow>
                         (case SetPhysicalRecoverySealConfig h c cf' of
                            (Some err, c') \<Rightarrow>
                              Inr (Some (Wrapf ''failed to write recovery seal configuration'' err),
                                   Some cf', d1\<lparr>core := Some c'\<rparr>)
                          | (None, c') \<Rightarrow>
                              Inr (None, Some cf',
                                   d1\<lparr>core := Some c', recoveryConfig := Some (Clone cf')\<rparr>))))))"

definition ClearRecoveryConfig ::
  "helpers \<Rightarrow> autoSeal \<Rightarrow> panic + (error option \<times> SealConfig option \<times> autoSeal)" where
  "ClearRecoveryConfig h d = SetRecoveryConfig h d None"

definition SetCachedRecoveryConfig :: "autoSeal \<Rightarrow> SealConfig option \<Rightarrow> autoSeal" where
  "SetCachedRecoveryConfig d config = d\<lparr>recoveryConfig := config\<rparr>"

subsection \<open>The health check\<close>

text \<open>\<^verbatim>\<open>fmt.Sprintf("Heartbeat %d", n)\<close> for the draw \<open>n\<close> of the random source, as bytes.\<close>

function decimal :: "nat \<Rightarrow> string" where
  "decimal n = (if n < 10 then [char_of (48 + n)] else decimal (n div 10) @ [char_of (48 + n mod 10)])"
  by pat_completeness auto
termination
  by (relation "measure id") auto

definition heartbeat :: "nat \<Rightarrow> byte list" where
  "heartbeat n = map of_char (''Heartbeat '' @ decimal n)"

text \<open>\<^verbatim>\<open>bytes.Equal\<close>: a nil slice equals an empty one.\<close>

definition bytes_Equal :: "byte list \<Rightarrow> slice \<Rightarrow> bool" where
  "bytes_Equal a b = (a = bytes_of b)"

definition StopHealthCheck :: "autoSeal \<Rightarrow> autoSeal" where
  "StopHealthCheck d = (if healthCheckStop d \<noteq> None then d\<lparr>healthCheckStop := None\<rparr> else d)"

text \<open>
  \<^verbatim>\<open>StartHealthCheck\<close> stops a running loop, makes the stop channel, reads the context of
  the core and starts the loop with the ticker at the nominal interval.
\<close>

definition StartHealthCheck :: "autoSeal \<Rightarrow> panic + (autoSeal \<times> Duration)" where
  "StartHealthCheck d =
     (let d1 = StopHealthCheck d;
          d2 = d1\<lparr>healthCheckStop := Some ()\<rparr>
      in case core d2 of
           None \<Rightarrow> Inl NilPointerDereference
         | Some c \<Rightarrow> Inr (d2, sealHealthTestIntervalNominal))"

text \<open>
  The closure \<^verbatim>\<open>fail\<close>: the ticker \<open>healthCheck\<close> is reset to the unhealthy interval when
  the backend was healthy, and the backend is marked unhealthy.
\<close>

definition fail :: "Duration \<Rightarrow> SealWrapper \<Rightarrow> Duration \<times> SealWrapper" where
  "fail healthCheck w =
     (if w_Healthy w then sealHealthTestIntervalUnhealthy else healthCheck,
      w\<lparr>w_Healthy := False\<rparr>)"

text \<open>
  The body of the loop over the backends, for one backend \<open>w\<close>: the state it shares with
  the other iterations is the ticker and the flag \<open>anyUnhealthy\<close>.
\<close>

definition probe ::
  "byte list \<Rightarrow> Time \<Rightarrow> Duration \<times> bool \<Rightarrow> SealWrapper \<Rightarrow> (Duration \<times> bool) \<times> SealWrapper" where
  "probe testVal checkTime st w =
     (case st of (healthCheck, anyUnhealthy) \<Rightarrow>
      case w_Encrypt w testVal of (ciphertext, err) \<Rightarrow>
        let w1 = w\<lparr>w_LastHealthCheck := checkTime\<rparr> in
        if err \<noteq> None then
          (case fail healthCheck w1 of (hc, w2) \<Rightarrow> ((hc, True), w2))
        else
          (case w_Decrypt w1 ciphertext of (plaintext, err') \<Rightarrow>
           case (if err' \<noteq> None then fail healthCheck w1 else (healthCheck, w1)) of (hc, w2) \<Rightarrow>
             if \<not> bytes_Equal testVal plaintext then
               (case fail hc w2 of (hc', w3) \<Rightarrow> ((hc', anyUnhealthy), w3))
             else
               ((if \<not> w_Healthy w2 then sealHealthTestIntervalNominal else hc, anyUnhealthy),
                w2\<lparr>w_Healthy := True, w_LastSeenHealthy := checkTime\<rparr>)))"

text \<open>The loop; \<open>now i\<close> is the reading of the clock in the probe of the backend at position \<open>i\<close>.\<close>

fun check_seals ::
  "byte list \<Rightarrow> (nat \<Rightarrow> Time) \<Rightarrow> nat \<Rightarrow> Duration \<times> bool \<Rightarrow> SealWrapper list \<Rightarrow>
     (Duration \<times> bool) \<times> SealWrapper list" where
  "check_seals testVal now i st [] = (st, [])"
| "check_seals testVal now i st (w # ws) =
     (case probe testVal (now i) st w of (st1, w') \<Rightarrow>
      case check_seals testVal now (Suc i) st1 ws of (st2, ws') \<Rightarrow> (st2, w' # ws'))"

text \<open>
  One pass of the health check, \<^verbatim>\<open>check\<close> in the source, from the ticker \<open>healthCheck\<close>
  and the random draw \<open>n\<close>. Every path through a probe reads the metric sink of the core,
  so a pass over at least one backend without a core is a nil dereference.
\<close>

definition check ::
  "autoSeal \<Rightarrow> Duration \<Rightarrow> nat \<Rightarrow> (nat \<Rightarrow> Time) \<Rightarrow> panic + (autoSeal \<times> Duration)" where
  "check d healthCheck n now =
     (if core d = None \<and> AllSealInfoByPriority (Access d) \<noteq> [] then Inl NilPointerDereference
      else
        (case check_seals (heartbeat n) now 0 (healthCheck, False) (AllSealInfoByPriority (Access d)) of
           ((hc, anyUnhealthy), ws) \<Rightarrow>
             Inr (d\<lparr>Access := (Access d)\<lparr>AllSealInfoByPriority := ws\<rparr>,
                    allSealsHealthy := \<not> anyUnhealthy\<rparr>, hc)))"

subsection \<open>Runs of the manager\<close>

text \<open>
  The calls a server makes on the manager, and the pass of the health-check loop, as one
  type of operations. \<open>perform\<close> keeps the manager a call leaves behind and drops what it
  returns; a panic ends the run.
\<close>

datatype operation =
    OpSetCore Core
  | OpSetStoredKeys "slice list"
  | OpGetStoredKeys
  | OpUpgradeKeys
  | OpBarrierConfig
  | OpSetBarrierConfig "SealConfig option"
  | OpClearBarrierConfig
  | OpSetCachedBarrierConfig "SealConfig option"
  | OpRecoveryConfig
  | OpSetRecoveryConfig "SealConfig option"
  | OpClearRecoveryConfig
  | OpSetCachedRecoveryConfig "SealConfig option"
  | OpVerifyRecoveryKey slice
  | OpSetRecoveryKey slice
  | OpRecoveryKey
  | OpStartHealthCheck
  | OpStopHealthCheck
  | OpHealthCheckPass Duration nat "nat \<Rightarrow> Time"

definition keep :: "panic + ('a \<times> autoSeal) \<Rightarrow> panic + autoSeal" where
  "keep r = (case r of Inl p \<Rightarrow> Inl p | Inr (_, d) \<Rightarrow> Inr d)"

definition keep2 :: "panic + ('a \<times> 'b \<times> autoSeal) \<Rightarrow> panic + autoSeal" where
  "keep2 r = (case r of Inl p \<Rightarrow> Inl p | Inr (_, _, d) \<Rightarrow> Inr d)"

definition same :: "autoSeal \<Rightarrow> panic + 'a \<Rightarrow> panic + autoSeal" where
  "same d r = (case r of Inl p \<Rightarrow> Inl p | Inr _ \<Rightarrow> Inr d)"

fun perform :: "helpers \<Rightarrow> operation \<Rightarrow> autoSeal \<Rightarrow> panic + autoSeal" where
  "perform h (OpSetCore c) d = Inr (SetCore d c)"
| "perform h (OpSetStoredKeys keys) d = keep (SetStoredKeys h d keys)"
| "perform h OpGetStoredKeys d = same d (GetStoredKeys h d)"
| "perform h OpUpgradeKeys d = keep (UpgradeKeys h d)"
| "perform h OpBarrierConfig d = keep (BarrierConfig h d)"
| "perform h (OpSetBarrierConfig conf) d = keep2 (SetBarrierConfig h d conf)"
| "perform h OpClearBarrierConfig d = keep2 (ClearBarrierConfig h d)"
| "perform h (OpSetCachedBarrierConfig conf) d = Inr (SetCachedBarrierConfig d conf)"
| "perform h OpRecoveryConfig d = keep (RecoveryConfig h d)"
| "perform h (OpSetRecoveryConfig conf) d = keep2 (SetRecoveryConfig h d conf)"
| "perform h OpClearRecoveryConfig d = keep2 (ClearRecoveryConfig h d)"
| "perform h (OpSetCachedRecoveryConfig conf) d = Inr (SetCachedRecoveryConfig d conf)"
| "perform h (OpVerifyRecoveryKey key) d = same d (VerifyRecoveryKey h d key)"
| "perform h (OpSetRecoveryKey key) d = keep (SetRecoveryKey h d key)"
| "perform h OpRecoveryKey d = same d (RecoveryKey h d)"
| "perform h OpStartHealthCheck d = keep (case StartHealthCheck d of Inl p \<Rightarrow> Inl p | Inr (d', t) \<Rightarrow> Inr (t, d'))"
| "perform h OpStopHealthCheck d = Inr (StopHealthCheck d)"
| "perform h (OpHealthCheckPass healthCheck n now) d =
     (case check d healthCheck n now of Inl p \<Rightarrow> Inl p | Inr (d', _) \<Rightarrow> Inr d')"

fun run :: "helpers \<Rightarrow> operation list \<Rightarrow> autoSeal \<Rightarrow> panic + autoSeal" where
  "run h [] d = Inr d"
| "run h (c # cs) d = (case perform h c d of Inl p \<Rightarrow> Inl p | Inr d' \<Rightarrow> run h cs d')"

fun is_pass :: "operation \<Rightarrow> bool" where
  "is_pass (OpHealthCheckPass _ _ _) = True"
| "is_pass _ = False"

subsection \<open>Observations and fixtures\<close>

text \<open>What is persisted at a path of the physical storage of the bound core.\<close>

definition persisted :: "autoSeal \<Rightarrow> string \<Rightarrow> slice option" where
  "persisted d path = (case core d of None \<Rightarrow> None | Some c \<Rightarrow> entries (physical c) path)"

text \<open>The error a call returned together with what it left persisted at a path.\<close>

definition report :: "panic + (error option \<times> autoSeal) \<Rightarrow> string \<Rightarrow> panic + (error option \<times> slice option)" where
  "report r path = (case r of Inl p \<Rightarrow> Inl p | Inr (e, d) \<Rightarrow> Inr (e, persisted d path))"



text \<open>
  After a pass of the health check: the aggregate flag \<^verbatim>\<open>Healthy()\<close> returns, and the
  flags of the backends in priority order.
\<close>

definition pass_outcome :: "panic + (autoSeal \<times> Duration) \<Rightarrow> panic + (bool \<times> bool list)" where
  "pass_outcome r =
     (case r of
        Inl p \<Rightarrow> Inl p
      | Inr (d, _) \<Rightarrow> Inr (Healthy d, map w_Healthy (AllSealInfoByPriority (GetAccess d))))"

text \<open>
  Concrete collaborators, for evaluating the manager: a store that never fails, a codec
  that wraps a value as itself, and configuration readers that find nothing.
\<close>

definition open_storage :: Storage where
  "open_storage =
     \<lparr>entries = Map.empty, get_failure = (\<lambda>_. None), put_failure = (\<lambda>_. None),
      delete_failure = (\<lambda>_. None)\<rparr>"

definition unsealed_core :: Core where
  "unsealed_core = \<lparr>physical = open_storage, barrier = open_storage, sealed = False\<rparr>"

definition plain_helpers :: helpers where
  "plain_helpers =
     \<lparr>writeStoredKeys =
        (\<lambda>s a keys. storage_Put s \<lparr>Key = StoredBarrierKeysPath, Value = Some (concat (map bytes_of keys))\<rparr>),
      readStoredKeys =
        (\<lambda>s a. case storage_Get s StoredBarrierKeysPath of
                  Inl e \<Rightarrow> Inl e
                | Inr None \<Rightarrow> Inl (Errorf ''no stored keys'')
                | Inr (Some e) \<Rightarrow> Inr [Value e]),
      UnmarshalSealWrappedValue = (\<lambda>v. Inr \<lparr>sw_key_version = ''v1'', sw_ciphertext = bytes_of v\<rparr>),
      UnsealWrapStoredBarrierKeys = (\<lambda>a e. Inr [Value e]),
      wrapValue = (\<lambda>a k. Inr k),
      unwrapValue = (\<lambda>a v. Inr v),
      IsSameAs = (\<lambda>s t. String s = t),
      PhysicalBarrierSealConfig = (\<lambda>c. Inr None),
      SetPhysicalBarrierSealConfig = (\<lambda>c cf. (None, c)),
      PhysicalRecoverySealConfig = (\<lambda>c. Inr None),
      PhysicalRecoverySealConfigOldPath = (\<lambda>c. Inr None),
      SetPhysicalRecoverySealConfig = (\<lambda>c cf. (None, c))\<rparr>"

text \<open>A backend whose encryption works and whose decryption returns an error.\<close>

definition decrypt_failing_seal :: SealWrapper where
  "decrypt_failing_seal =
     \<lparr>w_Name = ''transit-a'', w_Priority = 1, w_Healthy = True, w_LastSeenHealthy = 0,
      w_LastHealthCheck = 0,
      w_Encrypt = (\<lambda>pt. (Some pt, None)),
      w_Decrypt = (\<lambda>ct. (None, Some (Errorf ''decrypt: backend unreachable'')))\<rparr>"

definition echo_seal :: SealWrapper where
  "echo_seal =
     \<lparr>w_Name = ''transit-b'', w_Priority = 2, w_Healthy = False, w_LastSeenHealthy = 0,
      w_LastHealthCheck = 0,
      w_Encrypt = (\<lambda>pt. (Some pt, None)),
      w_Decrypt = (\<lambda>ct. (ct, None))\<rparr>"

definition one_seal_access :: seal_Access where
  "one_seal_access =
     \<lparr>Seals = [\<lparr>kms_Type = ''transit'', kms_Name = ''transit-a''\<rparr>],
      AllSealInfoByPriority = [decrypt_failing_seal],
      IsUpToDate = (\<lambda>w b. Inr (sw_key_version w = ''v1''))\<rparr>"

definition two_seal_access :: seal_Access where
  "two_seal_access =
     \<lparr>Seals = [\<lparr>kms_Type = ''transit'', kms_Name = ''transit-a''\<rparr>,
               \<lparr>kms_Type = ''awskms'', kms_Name = ''transit-b''\<rparr>],
      AllSealInfoByPriority = [decrypt_failing_seal, echo_seal],
      IsUpToDate = (\<lambda>w b. Inr (sw_key_version w = ''v1''))\<rparr>"

text \<open>A single configured backend whose declared type is the string "multiseal".\<close>

definition multiseal_named_access :: seal_Access where
  "multiseal_named_access =
     \<lparr>Seals = [\<lparr>kms_Type = ''multiseal'', kms_Name = ''only''\<rparr>],
      AllSealInfoByPriority = [echo_seal],
      IsUpToDate = (\<lambda>w b. Inr True)\<rparr>"

definition manager_of :: "seal_Access \<Rightarrow> SealConfigType \<Rightarrow> Core option \<Rightarrow> autoSeal" where
  "manager_of a t c =
     \<lparr>Access = a, barrierSealConfigType = t, barrierConfig = None, recoveryConfig = None,
      core = c, allSealsHealthy = False, healthCheckStop = None\<rparr>"

text \<open>The manager \<^verbatim>\<open>NewAutoSeal\<close> builds for one seal, before and after \<^verbatim>\<open>SetCore\<close>.\<close>

definition fresh_manager :: autoSeal where
  "fresh_manager = manager_of one_seal_access ''transit'' None"

definition bound_manager :: autoSeal where
  "bound_manager = manager_of one_seal_access ''transit'' (Some unsealed_core)"

text \<open>A legacy recovery configuration, found only by the reader of the old path.\<close>

definition legacy_config :: SealConfig where
  "legacy_config = \<lparr>Type = ''recovery'', SecretShares = 5, SecretThreshold = 3, StoredShares = 0\<rparr>"

definition legacy_helpers :: helpers where
  "legacy_helpers = plain_helpers\<lparr>PhysicalRecoverySealConfigOldPath := (\<lambda>c. Inr (Some legacy_config))\<rparr>"


text \<open>A bound manager whose store holds both wrapped artifacts.\<close>

definition stocked_storage :: Storage where
  "stocked_storage =
     open_storage\<lparr>entries := [recoveryKeyPath \<mapsto> Some [1, 2, 3], StoredBarrierKeysPath \<mapsto> Some [4, 5]]\<rparr>"

definition stocked_manager :: autoSeal where
  "stocked_manager =
     manager_of one_seal_access ''transit''
       (Some \<lparr>physical = stocked_storage, barrier = open_storage, sealed = False\<rparr>)"




text \<open>Two calls of \<^verbatim>\<open>UpgradeKeys\<close> in succession.\<close>

definition UpgradeKeys_twice :: "helpers \<Rightarrow> autoSeal \<Rightarrow> panic + (error option \<times> autoSeal)" where
  "UpgradeKeys_twice h d =
     (case UpgradeKeys h d of Inl p \<Rightarrow> Inl p | Inr (_, d1) \<Rightarrow> UpgradeKeys h d1)"





section \<open>Properties\<close>

subsection \<open>What a call leaves untouched\<close>

text \<open>
  The fields no call but a pass of the health check writes: the computed type, the
  aggregate health flag and the backend access.
\<close>

lemma SetStoredKeys_fixed:
  "SetStoredKeys h d keys = Inr (e, d') \<Longrightarrow>
     barrierSealConfigType d' = barrierSealConfigType d \<and> allSealsHealthy d' = allSealsHealthy d"
  by (auto simp: SetStoredKeys_def split: option.splits prod.splits)

lemma upgradeStoredKeys_fixed:
  "upgradeStoredKeys h d = Inr (e, d') \<Longrightarrow>
     barrierSealConfigType d' = barrierSealConfigType d \<and> allSealsHealthy d' = allSealsHealthy d"
  unfolding upgradeStoredKeys_def
  by (auto split: option.splits sum.splits if_splits prod.splits dest: SetStoredKeys_fixed)

lemma SetRecoveryKey_fixed:
  "SetRecoveryKey h d key = Inr (e, d') \<Longrightarrow>
     barrierSealConfigType d' = barrierSealConfigType d \<and> allSealsHealthy d' = allSealsHealthy d"
  by (auto simp: SetRecoveryKey_def split: option.splits prod.splits sum.splits if_splits)

lemma upgradeRecoveryKey_fixed:
  "upgradeRecoveryKey h d = Inr (e, d') \<Longrightarrow>
     barrierSealConfigType d' = barrierSealConfigType d \<and> allSealsHealthy d' = allSealsHealthy d"
  unfolding upgradeRecoveryKey_def
  by (auto split: option.splits sum.splits if_splits prod.splits dest: SetRecoveryKey_fixed)

lemma UpgradeKeys_fixed:
  "UpgradeKeys h d = Inr (e, d') \<Longrightarrow>
     barrierSealConfigType d' = barrierSealConfigType d \<and> allSealsHealthy d' = allSealsHealthy d"
  unfolding UpgradeKeys_def
  by (auto split: option.splits sum.splits prod.splits
      dest!: upgradeRecoveryKey_fixed upgradeStoredKeys_fixed)

lemma BarrierConfig_fixed:
  "BarrierConfig h d = Inr (r, d') \<Longrightarrow>
     barrierSealConfigType d' = barrierSealConfigType d \<and> allSealsHealthy d' = allSealsHealthy d"
  by (auto simp: BarrierConfig_def SetCachedBarrierConfig_def
      split: option.splits sum.splits if_splits)

lemma SetBarrierConfig_fixed:
  "SetBarrierConfig h d conf = Inr (e, c, d') \<Longrightarrow>
     barrierSealConfigType d' = barrierSealConfigType d \<and> allSealsHealthy d' = allSealsHealthy d"
  by (auto simp: SetBarrierConfig_def SetCachedBarrierConfig_def Let_def
      split: option.splits prod.splits)

lemma recovery_type_check_fixed:
  "recovery_type_check h d conf = Inr (r, d') \<Longrightarrow>
     barrierSealConfigType d' = barrierSealConfigType d \<and> allSealsHealthy d' = allSealsHealthy d"
  by (auto simp: recovery_type_check_def split: option.splits if_splits)

lemma RecoveryConfig_fixed:
  "RecoveryConfig h d = Inr (r, d') \<Longrightarrow>
     barrierSealConfigType d' = barrierSealConfigType d \<and> allSealsHealthy d' = allSealsHealthy d"
  unfolding RecoveryConfig_def
  by (auto split: option.splits sum.splits if_splits dest: recovery_type_check_fixed)

lemma migrateRecoveryConfig_fixed:
  "migrateRecoveryConfig d = Inr (e, d') \<Longrightarrow>
     barrierSealConfigType d' = barrierSealConfigType d \<and> allSealsHealthy d' = allSealsHealthy d"
  by (auto simp: migrateRecoveryConfig_def Let_def split: option.splits sum.splits prod.splits)

lemma SetRecoveryConfig_fixed:
  "SetRecoveryConfig h d conf = Inr (e, c, d') \<Longrightarrow>
     barrierSealConfigType d' = barrierSealConfigType d \<and> allSealsHealthy d' = allSealsHealthy d"
  unfolding SetRecoveryConfig_def
  by (auto simp: Let_def split: option.splits sum.splits prod.splits
      dest!: migrateRecoveryConfig_fixed)

lemma StartHealthCheck_fixed:
  "StartHealthCheck d = Inr (d', t) \<Longrightarrow>
     barrierSealConfigType d' = barrierSealConfigType d \<and> allSealsHealthy d' = allSealsHealthy d"
  by (auto simp: StartHealthCheck_def StopHealthCheck_def Let_def split: option.splits if_splits)

lemma check_type_fixed:
  "check d healthCheck n now = Inr (d', t) \<Longrightarrow> barrierSealConfigType d' = barrierSealConfigType d"
  by (auto simp: check_def split: if_splits prod.splits)

lemma perform_type_fixed:
  "perform h op d = Inr d' \<Longrightarrow> barrierSealConfigType d' = barrierSealConfigType d"
  by (cases op)
    (auto simp: keep_def keep2_def same_def SetCore_def SetCachedBarrierConfig_def
      SetCachedRecoveryConfig_def StopHealthCheck_def ClearBarrierConfig_def ClearRecoveryConfig_def
      split: sum.splits prod.splits if_splits
      dest: SetStoredKeys_fixed UpgradeKeys_fixed BarrierConfig_fixed SetBarrierConfig_fixed
        RecoveryConfig_fixed SetRecoveryConfig_fixed SetRecoveryKey_fixed StartHealthCheck_fixed
        check_type_fixed)

lemma perform_health_fixed:
  "perform h op d = Inr d' \<Longrightarrow> \<not> is_pass op \<Longrightarrow> allSealsHealthy d' = allSealsHealthy d"
  by (cases op)
    (auto simp: keep_def keep2_def same_def SetCore_def SetCachedBarrierConfig_def
      SetCachedRecoveryConfig_def StopHealthCheck_def ClearBarrierConfig_def ClearRecoveryConfig_def
      split: sum.splits prod.splits if_splits
      dest: SetStoredKeys_fixed UpgradeKeys_fixed BarrierConfig_fixed SetBarrierConfig_fixed
        RecoveryConfig_fixed SetRecoveryConfig_fixed SetRecoveryKey_fixed StartHealthCheck_fixed)

lemma run_type_fixed:
  "run h ops d = Inr d' \<Longrightarrow> barrierSealConfigType d' = barrierSealConfigType d"
proof (induction ops arbitrary: d)
  case Nil
  then show ?case by simp
next
  case (Cons op ops)
  then obtain d1 where step: "perform h op d = Inr d1" and rest: "run h ops d1 = Inr d'"
    by (auto split: sum.splits)
  from Cons.IH [OF rest] perform_type_fixed [OF step] show ?case by simp
qed

lemma run_health_fixed:
  "run h ops d = Inr d' \<Longrightarrow> list_all (\<lambda>op. \<not> is_pass op) ops \<Longrightarrow>
     allSealsHealthy d' = allSealsHealthy d"
proof (induction ops arbitrary: d)
  case Nil
  then show ?case by simp
next
  case (Cons op ops)
  then obtain d1 where step: "perform h op d = Inr d1" and rest: "run h ops d1 = Inr d'"
    by (auto split: sum.splits)
  from Cons.prems have quiet: "\<not> is_pass op" "list_all (\<lambda>op. \<not> is_pass op) ops"
    by simp_all
  from Cons.IH [OF rest quiet(2)] perform_health_fixed [OF step quiet(1)] show ?case by simp
qed

lemma NewAutoSeal_fresh: "NewAutoSeal one_seal_access = Inr fresh_manager"
  by (simp add: NewAutoSeal_def one_seal_access_def fresh_manager_def manager_of_def)

subsection \<open>Construction\<close>

text \<open>
  C10. From construction until a pass of the health check has run, \<^verbatim>\<open>Healthy()\<close> returns
  false: \<^verbatim>\<open>NewAutoSeal\<close> leaves the aggregate flag at its zero value, and no call other
  than a pass writes it, whatever the backends would answer.
\<close>

theorem unhealthy_until_first_pass:
  assumes "NewAutoSeal lowLevel = Inr d0"
    and "run h ops d0 = Inr d"
    and "list_all (\<lambda>op. \<not> is_pass op) ops"
  shows "Healthy d0 = False \<and> Healthy d = False"
proof -
  from assms(1) have zero: "allSealsHealthy d0 = False"
    by (auto simp: NewAutoSeal_def split: if_splits list.splits)
  from run_health_fixed [OF assms(2) assms(3)] zero show ?thesis
    by (simp add: Healthy_def)
qed

theorem unhealthy_until_first_pass_witness:
  "NewAutoSeal one_seal_access = Inr fresh_manager
   \<and> run plain_helpers [OpSetCore unsealed_core, OpStartHealthCheck, OpSetRecoveryKey (Some [7])] fresh_manager
       = Inr (bound_manager
               \<lparr>core := Some (unsealed_core\<lparr>physical := open_storage\<lparr>entries := [recoveryKeyPath \<mapsto> Some [7]]\<rparr>\<rparr>),
                healthCheckStop := Some ()\<rparr>)
   \<and> list_all (\<lambda>op. \<not> is_pass op) [OpSetCore unsealed_core, OpStartHealthCheck, OpSetRecoveryKey (Some [7])]
   \<and> Healthy fresh_manager = False
   \<and> Healthy (bound_manager
               \<lparr>core := Some (unsealed_core\<lparr>physical := open_storage\<lparr>entries := [recoveryKeyPath \<mapsto> Some [7]]\<rparr>\<rparr>),
                healthCheckStop := Some ()\<rparr>) = False"
proof -
  have a: "NewAutoSeal one_seal_access = Inr fresh_manager"
    by (simp add: NewAutoSeal_def one_seal_access_def fresh_manager_def manager_of_def)
  have b: "run plain_helpers [OpSetCore unsealed_core, OpStartHealthCheck, OpSetRecoveryKey (Some [7])] fresh_manager
       = Inr (bound_manager
               \<lparr>core := Some (unsealed_core\<lparr>physical := open_storage\<lparr>entries := [recoveryKeyPath \<mapsto> Some [7]]\<rparr>\<rparr>),
                healthCheckStop := Some ()\<rparr>)"
    by (simp add: fresh_manager_def bound_manager_def manager_of_def SetCore_def keep_def
        StartHealthCheck_def StopHealthCheck_def SetRecoveryKey_def checkCore_def
        SealWrapRecoveryKey_def plain_helpers_def storage_Put_def unsealed_core_def
        open_storage_def)
  have c: "list_all (\<lambda>op. \<not> is_pass op) [OpSetCore unsealed_core, OpStartHealthCheck, OpSetRecoveryKey (Some [7])]"
    by simp
  from unhealthy_until_first_pass [OF a b c] a b c show ?thesis
    by simp
qed

text \<open>
  C7, as amended. With more than one configured backend the type is "multiseal", with one
  it is that backend's declared type, and no run of calls and health-check passes changes
  it. The type of the manager is "multiseal" also for a single backend that declares that
  string as its type, so "exactly when" does not hold.
\<close>

theorem BarrierSealConfigType_by_count:
  assumes "NewAutoSeal lowLevel = Inr d0"
    and "run h ops d0 = Inr d"
  shows "Seals lowLevel \<noteq> []
    \<and> BarrierSealConfigType d0 =
        (if length (Seals lowLevel) > 1 then SealConfigTypeMultiseal
         else kms_Type (hd (Seals lowLevel)))
    \<and> BarrierSealConfigType d = BarrierSealConfigType d0"
proof -
  from assms(1) have "Seals lowLevel \<noteq> []"
    by (auto simp: NewAutoSeal_def split: if_splits)
  moreover from assms(1) have "barrierSealConfigType d0 =
        (if length (Seals lowLevel) > 1 then SealConfigTypeMultiseal
         else kms_Type (hd (Seals lowLevel)))"
    by (auto simp: NewAutoSeal_def split: if_splits list.splits)
  moreover note run_type_fixed [OF assms(2)]
  ultimately show ?thesis
    by (simp add: BarrierSealConfigType_def)
qed

theorem BarrierSealConfigType_by_count_witness:
  "NewAutoSeal two_seal_access = Inr (manager_of two_seal_access SealConfigTypeMultiseal None)
   \<and> run plain_helpers [OpSetCore unsealed_core, OpSetBarrierConfig None]
         (manager_of two_seal_access SealConfigTypeMultiseal None)
       = Inr (manager_of two_seal_access SealConfigTypeMultiseal (Some unsealed_core))
   \<and> Seals two_seal_access \<noteq> []
   \<and> BarrierSealConfigType (manager_of two_seal_access SealConfigTypeMultiseal None) = ''multiseal''
   \<and> BarrierSealConfigType (manager_of two_seal_access SealConfigTypeMultiseal (Some unsealed_core)) = ''multiseal''"
proof -
  have a: "NewAutoSeal two_seal_access = Inr (manager_of two_seal_access SealConfigTypeMultiseal None)"
    by (simp add: NewAutoSeal_def two_seal_access_def manager_of_def)
  have b: "run plain_helpers [OpSetCore unsealed_core, OpSetBarrierConfig None]
         (manager_of two_seal_access SealConfigTypeMultiseal None)
       = Inr (manager_of two_seal_access SealConfigTypeMultiseal (Some unsealed_core))"
    by (simp add: manager_of_def SetCore_def keep2_def SetBarrierConfig_def checkCore_def)
  from BarrierSealConfigType_by_count [OF a b] a b show ?thesis
    by (simp add: two_seal_access_def SealConfigTypeMultiseal_def)
qed

text \<open>
  The claim as stated fails for one configured backend that declares the type "multiseal":
  the type of the manager is "multiseal" and not more than one backend is configured.
\<close>

theorem BarrierSealConfigType_single_multiseal_counterexample:
  "NewAutoSeal multiseal_named_access = Inr (manager_of multiseal_named_access ''multiseal'' None)
   \<and> BarrierSealConfigType (manager_of multiseal_named_access ''multiseal'' None) = SealConfigTypeMultiseal
   \<and> length (Seals multiseal_named_access) = 1"
  by (simp add: NewAutoSeal_def multiseal_named_access_def manager_of_def
      BarrierSealConfigType_def SealConfigTypeMultiseal_def)

subsection \<open>Calls before \<^verbatim>\<open>SetCore\<close>\<close>

text \<open>The calls that start with \<^verbatim>\<open>checkCore\<close> return its error when no core is bound.\<close>

lemma checked_calls_without_core:
  assumes "core d = None"
  shows "SetBarrierConfig h d conf = Inr (Some (Errorf ''seal does not have a core set''), conf, d)"
    and "SetRecoveryConfig h d conf = Inr (Some (Errorf ''seal does not have a core set''), conf, d)"
    and "SetRecoveryKey h d key = Inr (Some (Errorf ''seal does not have a core set''), d)"
    and "barrierConfig d = None \<Longrightarrow>
           BarrierConfig h d = Inr (Inl (Errorf ''seal does not have a core set''), d)"
    and "recoveryConfig d = None \<Longrightarrow>
           RecoveryConfig h d = Inr (Inl (Errorf ''seal does not have a core set''), d)"
  using assms
  by (simp_all add: SetBarrierConfig_def SetRecoveryConfig_def SetRecoveryKey_def
      BarrierConfig_def RecoveryConfig_def checkCore_def)

text \<open>
  C2. The claim asks that every storage operation called before \<^verbatim>\<open>SetCore\<close> returns an
  error. The stored-key calls, the recovery-key readers and \<^verbatim>\<open>UpgradeKeys\<close> do not call
  \<^verbatim>\<open>checkCore\<close>: with no core bound they dereference the nil core, which is a panic and
  not a returned error. Here the code is evaluated on a freshly constructed manager.
\<close>

lemma calls_dereferencing_nil_core:
  "SetStoredKeys h (d\<lparr>core := None\<rparr>) keys = Inl NilPointerDereference
   \<and> GetStoredKeys h (d\<lparr>core := None\<rparr>) = Inl NilPointerDereference
   \<and> RecoveryKey h (d\<lparr>core := None\<rparr>) = Inl NilPointerDereference
   \<and> VerifyRecoveryKey h (d\<lparr>core := None\<rparr>) (Some candidate) = Inl NilPointerDereference
   \<and> UpgradeKeys h (d\<lparr>core := None\<rparr>) = Inl NilPointerDereference"
  by (simp add: SetStoredKeys_def GetStoredKeys_def RecoveryKey_def getRecoveryKeyInternal_def
      VerifyRecoveryKey_def UpgradeKeys_def upgradeRecoveryKey_def)

theorem unchecked_calls_without_core:
  "NewAutoSeal one_seal_access = Inr fresh_manager
   \<and> SetStoredKeys plain_helpers fresh_manager [Some [1]] = Inl NilPointerDereference
   \<and> GetStoredKeys plain_helpers fresh_manager = Inl NilPointerDereference
   \<and> RecoveryKey plain_helpers fresh_manager = Inl NilPointerDereference
   \<and> VerifyRecoveryKey plain_helpers fresh_manager (Some [1]) = Inl NilPointerDereference
   \<and> UpgradeKeys plain_helpers fresh_manager = Inl NilPointerDereference"
  by (simp add: NewAutoSeal_fresh SetStoredKeys_def GetStoredKeys_def RecoveryKey_def
      getRecoveryKeyInternal_def VerifyRecoveryKey_def UpgradeKeys_def upgradeRecoveryKey_def
      fresh_manager_def manager_of_def)

subsection \<open>The recovery configuration and its legacy path\<close>

text \<open>With the cache empty, the primary location empty and the core sealed, the result is "not initialized".\<close>

lemma RecoveryConfig_sealed:
  assumes "recoveryConfig d = None" and "core d = Some c"
    and "PhysicalRecoverySealConfig h c = Inr None" and "sealed c"
  shows "RecoveryConfig h d = Inr (Inr None, d)"
  using assms by (simp add: RecoveryConfig_def checkCore_def)

text \<open>
  With the core unsealed and an entry at the legacy path, the entry read is held by the
  variable of the inner block; the comparison after the block dereferences the outer
  variable, which is nil.
\<close>

lemma RecoveryConfig_legacy_entry:
  assumes "recoveryConfig d = None" and "core d = Some c"
    and "PhysicalRecoverySealConfig h c = Inr None" and "\<not> sealed c"
    and "PhysicalRecoverySealConfigOldPath h c = Inr (Some cf)"
  shows "RecoveryConfig h d = Inl NilPointerDereference"
  using assms by (simp add: RecoveryConfig_def checkCore_def recovery_type_check_def)

text \<open>
  C6. The claim asks that, unsealed, \<^verbatim>\<open>RecoveryConfig\<close> returns the configuration of the
  legacy entry when there is one. Evaluated on a bound, unsealed manager with an empty
  cache, an empty primary location and a legacy entry of the recovery type, the code panics
  on a nil dereference instead.
\<close>

theorem RecoveryConfig_legacy_entry_panics:
  "RecoveryConfig legacy_helpers bound_manager = Inl NilPointerDereference"
  by (simp add: RecoveryConfig_def checkCore_def recovery_type_check_def legacy_helpers_def
      plain_helpers_def bound_manager_def manager_of_def unsealed_core_def)

subsection \<open>The health check\<close>

lemma heartbeat_not_empty: "heartbeat n \<noteq> []"
  by (simp add: heartbeat_def)

text \<open>
  What a pass does compute: the aggregate flag is the negation of \<open>anyUnhealthy\<close>, and that
  flag is set only where an encryption returned an error.
\<close>

lemma probe_anyUnhealthy:
  "probe testVal t (hc, u) w = ((hc', u'), w') \<Longrightarrow>
     u' = (u \<or> snd (w_Encrypt w testVal) \<noteq> None)"
  by (auto simp: probe_def fail_def Let_def split: prod.splits if_splits)

lemma check_seals_anyUnhealthy:
  "check_seals testVal now i (hc, u) ws = ((hc', u'), ws') \<Longrightarrow>
     u' = (u \<or> (\<exists>w \<in> set ws. snd (w_Encrypt w testVal) \<noteq> None))"
proof (induction ws arbitrary: i hc u ws')
  case Nil
  then show ?case by simp
next
  case (Cons w ws)
  from Cons.prems obtain hc1 u1 w1 ws1 where
    p: "probe testVal (now i) (hc, u) w = ((hc1, u1), w1)"
    and r: "check_seals testVal now (Suc i) (hc1, u1) ws = ((hc', u'), ws1)"
    by (auto split: prod.splits)
  from Cons.IH [OF r] probe_anyUnhealthy [OF p] show ?case by auto
qed

lemma check_Healthy:
  assumes "check d healthCheck n now = Inr (d', t)"
  shows "Healthy d' = (\<forall>w \<in> set (AllSealInfoByPriority (Access d)). snd (w_Encrypt w (heartbeat n)) = None)"
proof -
  obtain hc u ws where
    loop: "check_seals (heartbeat n) now 0 (healthCheck, False) (AllSealInfoByPriority (Access d)) = ((hc, u), ws)"
    by (metis surj_pair)
  with assms have "allSealsHealthy d' = (\<not> u)"
    by (auto simp: check_def split: if_splits)
  with check_seals_anyUnhealthy [OF loop] show ?thesis
    by (auto simp: Healthy_def)
qed

text \<open>
  C1. The claim asks that after a pass \<^verbatim>\<open>Healthy()\<close> is the conjunction of the flags of
  the backends. Evaluated on a bound manager with one backend whose encryption succeeds
  and whose decryption returns an error, the pass marks the backend unhealthy and sets the
  aggregate flag to true.
\<close>

theorem pass_with_decrypt_failure:
  "pass_outcome (check bound_manager sealHealthTestIntervalNominal 7 (\<lambda>i. 100)) = Inr (True, [False])"
  by (simp add: pass_outcome_def check_def probe_def fail_def bytes_Equal_def bytes_of_def
      heartbeat_not_empty bound_manager_def manager_of_def one_seal_access_def
      decrypt_failing_seal_def Healthy_def GetAccess_def)

subsection \<open>The recovery key\<close>








text \<open>
  C3, as amended. With a core bound, \<^verbatim>\<open>SetRecoveryKey\<close> returns the validation error for
  the nil key and leaves the manager and its store as they were. A key that is not nil, of
  any length, the empty one included, is wrapped; when the wrapping and the write succeed
  the wrapped value is what the store holds at the recovery-key path, and no error is
  returned.
\<close>

theorem SetRecoveryKey_nil_guard:
  assumes "core d = Some c"
    and "wrapValue h (Access d) (Some bs) = Inr v"
    and "put_failure (physical c) recoveryKeyPath = None"
  shows "SetRecoveryKey h d None = Inr (Some (Errorf ''recovery key to store is nil''), d)
    \<and> SetRecoveryKey h d (Some bs) =
        Inr (None, d\<lparr>core := Some (c\<lparr>physical :=
               (physical c)\<lparr>entries := (entries (physical c))(recoveryKeyPath \<mapsto> v)\<rparr>\<rparr>)\<rparr>)
    \<and> report (SetRecoveryKey h d (Some bs)) recoveryKeyPath = Inr (None, Some v)"
  using assms
  by (simp add: SetRecoveryKey_def checkCore_def SealWrapRecoveryKey_def storage_Put_def
      report_def persisted_def)

theorem SetRecoveryKey_nil_guard_witness:
  "core bound_manager = Some unsealed_core
   \<and> wrapValue plain_helpers (Access bound_manager) (Some [7, 8]) = Inr (Some [7, 8])
   \<and> put_failure (physical unsealed_core) recoveryKeyPath = None
   \<and> SetRecoveryKey plain_helpers bound_manager None
       = Inr (Some (Errorf ''recovery key to store is nil''), bound_manager)
   \<and> report (SetRecoveryKey plain_helpers bound_manager (Some [7, 8])) recoveryKeyPath
       = Inr (None, Some (Some [7, 8]))"
proof -
  have a: "core bound_manager = Some unsealed_core"
    by (simp add: bound_manager_def manager_of_def)
  have b: "wrapValue plain_helpers (Access bound_manager) (Some [7, 8]) = Inr (Some [7, 8])"
    by (simp add: plain_helpers_def)
  have c: "put_failure (physical unsealed_core) recoveryKeyPath = None"
    by (simp add: unsealed_core_def open_storage_def)
  from SetRecoveryKey_nil_guard [OF a b c] a b c show ?thesis
    by (simp add: report_def persisted_def)
qed

text \<open>
  The claim as stated fails at the empty key that is not nil: it is wrapped and persisted,
  and the call returns no error.
\<close>

theorem SetRecoveryKey_empty_key_counterexample:
  "report (SetRecoveryKey plain_helpers bound_manager (Some [])) recoveryKeyPath
     = Inr (None, Some (Some []))"
  by (simp add: SetRecoveryKey_def checkCore_def SealWrapRecoveryKey_def storage_Put_def
      report_def persisted_def plain_helpers_def bound_manager_def manager_of_def
      unsealed_core_def open_storage_def)



subsection \<open>Upgrading the keys\<close>











text \<open>
  C5. When both artifacts are in the store and the backend reports both as up to date,
  \<^verbatim>\<open>UpgradeKeys\<close> returns no error and the manager, its store included, as it was. A
  second call in succession then returns the same, with the same bytes persisted.
\<close>

theorem UpgradeKeys_up_to_date:
  assumes "core d = Some c"
    and "storage_Get (physical c) recoveryKeyPath = Inr (Some pe)"
    and "UnmarshalSealWrappedValue h (Value pe) = Inr wv"
    and "IsUpToDate (Access d) wv True = Inr True"
    and "storage_Get (physical c) StoredBarrierKeysPath = Inr (Some pe')"
    and "UnmarshalSealWrappedValue h (Value pe') = Inr wv'"
    and "IsUpToDate (Access d) wv' True = Inr True"
  shows "UpgradeKeys h d = Inr (None, d)
    \<and> UpgradeKeys_twice h d = UpgradeKeys h d
    \<and> report (UpgradeKeys h d) recoveryKeyPath = Inr (None, persisted d recoveryKeyPath)
    \<and> report (UpgradeKeys h d) StoredBarrierKeysPath = Inr (None, persisted d StoredBarrierKeysPath)"
proof -
  from assms(1-4) have r: "upgradeRecoveryKey h d = Inr (None, d)"
    by (simp add: upgradeRecoveryKey_def)
  from assms(1,5-7) have s: "upgradeStoredKeys h d = Inr (None, d)"
    by (simp add: upgradeStoredKeys_def)
  from r s have u: "UpgradeKeys h d = Inr (None, d)"
    by (simp add: UpgradeKeys_def)
  then show ?thesis
    by (simp add: UpgradeKeys_twice_def report_def)
qed

theorem UpgradeKeys_up_to_date_witness:
  "core stocked_manager = Some \<lparr>physical = stocked_storage, barrier = open_storage, sealed = False\<rparr>
   \<and> storage_Get stocked_storage recoveryKeyPath = Inr (Some \<lparr>Key = recoveryKeyPath, Value = Some [1, 2, 3]\<rparr>)
   \<and> storage_Get stocked_storage StoredBarrierKeysPath = Inr (Some \<lparr>Key = StoredBarrierKeysPath, Value = Some [4, 5]\<rparr>)
   \<and> IsUpToDate (Access stocked_manager) \<lparr>sw_key_version = ''v1'', sw_ciphertext = [1, 2, 3]\<rparr> True = Inr True
   \<and> IsUpToDate (Access stocked_manager) \<lparr>sw_key_version = ''v1'', sw_ciphertext = [4, 5]\<rparr> True = Inr True
   \<and> UpgradeKeys plain_helpers stocked_manager = Inr (None, stocked_manager)
   \<and> UpgradeKeys_twice plain_helpers stocked_manager = Inr (None, stocked_manager)"
proof -
  let ?c = "\<lparr>physical = stocked_storage, barrier = open_storage, sealed = False\<rparr>"
  have a: "core stocked_manager = Some ?c"
    by (simp add: stocked_manager_def manager_of_def)
  have b: "storage_Get (physical ?c) recoveryKeyPath
      = Inr (Some \<lparr>Key = recoveryKeyPath, Value = Some [1, 2, 3]\<rparr>)"
    by (simp add: storage_Get_def stocked_storage_def open_storage_def recoveryKeyPath_def
        StoredBarrierKeysPath_def)
  have c: "UnmarshalSealWrappedValue plain_helpers (Value \<lparr>Key = recoveryKeyPath, Value = Some [1, 2, 3]\<rparr>)
      = Inr \<lparr>sw_key_version = ''v1'', sw_ciphertext = [1, 2, 3]\<rparr>"
    by (simp add: plain_helpers_def bytes_of_def)
  have e: "IsUpToDate (Access stocked_manager) \<lparr>sw_key_version = ''v1'', sw_ciphertext = [1, 2, 3]\<rparr> True = Inr True"
    by (simp add: stocked_manager_def manager_of_def one_seal_access_def)
  have f: "storage_Get (physical ?c) StoredBarrierKeysPath
      = Inr (Some \<lparr>Key = StoredBarrierKeysPath, Value = Some [4, 5]\<rparr>)"
    by (simp add: storage_Get_def stocked_storage_def open_storage_def recoveryKeyPath_def
        StoredBarrierKeysPath_def)
  have g: "UnmarshalSealWrappedValue plain_helpers (Value \<lparr>Key = StoredBarrierKeysPath, Value = Some [4, 5]\<rparr>)
      = Inr \<lparr>sw_key_version = ''v1'', sw_ciphertext = [4, 5]\<rparr>"
    by (simp add: plain_helpers_def bytes_of_def)
  have i: "IsUpToDate (Access stocked_manager) \<lparr>sw_key_version = ''v1'', sw_ciphertext = [4, 5]\<rparr> True = Inr True"
    by (simp add: stocked_manager_def manager_of_def one_seal_access_def)
  from UpgradeKeys_up_to_date [OF a b c e f g i] a b e f i show ?thesis
    by simp
qed

subsection \<open>Stamping the type of a configuration\<close>







end
